theory Spec2Isabelle
  imports Main "HOL-Library.AList"
begin

section \<open>Protocol messages\<close>

text \<open>
  The event service of package \<^verbatim>\<open>server\<close> (\<^verbatim>\<open>eventServiceServer\<close> and its methods) and
  the queries on the \<^verbatim>\<open>events\<close> table, embedded as functions on an explicit state. Line
  numbers are those of the file that defines \<^verbatim>\<open>eventServiceServer\<close>.
  \<^verbatim>\<open>int64\<close> values are integers; the two places that add one to a sequence number
  use \<open>int64_succ\<close>, which wraps as the machine addition does. Go maps of strings are
  association lists read through \<open>map_of\<close>.
\<close>

record timestamppb =
  seconds :: int
  nanos :: int

text \<open>
  \<^verbatim>\<open>pb.Event\<close>. The payload (\<^verbatim>\<open>*anypb.Any\<close>) is opaque to the service, which only
  passes it to \<^verbatim>\<open>json.Marshal\<close>; it is kept as its JSON text.
\<close>

record Event =
  EventId :: string
  EventType :: string
  Scope :: string
  ActorId :: string
  Timestamp :: "timestamppb option"
  Payload :: "string option"
  Metadata :: "(string \<times> string) list"
  Sequence :: int

record PublishResponse =
  pr_EventId :: string
  pr_Sequence :: int
  pr_Success :: bool

record GetEventsRequest =
  ge_Scope :: string
  ge_EventTypes :: "string list"
  ge_FromSequence :: int
  ge_ToSequence :: int
  ge_Limit :: int

record GetEventsResponse =
  Events :: "Event list"
  HasMore :: bool
  NextSequence :: int

record SubscribeRequest =
  sr_EventTypes :: "string list"
  sr_Scopes :: "string list"
  sr_Filters :: "(string \<times> string) list"
  sr_FromSequence :: int

text \<open>The gRPC status codes of \<^verbatim>\<open>google.golang.org/grpc/codes\<close>.\<close>

datatype code =
  OK | Canceled | Unknown | InvalidArgument | DeadlineExceeded | NotFound
  | AlreadyExists | PermissionDenied | ResourceExhausted | FailedPrecondition
  | Aborted | OutOfRange | Unimplemented | Internal | Unavailable | DataLoss
  | Unauthenticated

datatype status = Status code string

text \<open>
  What a Go \<^verbatim>\<open>error\<close> of \<^verbatim>\<open>Subscribe\<close> can be: a status built by the service, or
  the error \<^verbatim>\<open>stream.Send\<close> returned.
\<close>

datatype error = StatusError status | SendError string

section \<open>The events table\<close>

text \<open>
  \<^verbatim>\<open>database.Event\<close>, a row of
  \<^verbatim>\<open>CREATE TABLE events (event_id TEXT NOT NULL PRIMARY KEY, ..., sequence INTEGER NOT NULL)\<close>.
  The two nullable TEXT columns are options; the metadata column holds the JSON object of
  a string map, kept decoded (\<^verbatim>\<open>json.Unmarshal\<close> after \<^verbatim>\<open>json.Marshal\<close> gives the map back).
\<close>

record db_Event =
  db_EventID :: string
  db_EventType :: string
  db_Scope :: string
  db_ActorID :: string
  db_Timestamp :: int
  db_Payload :: "string option"
  db_Metadata :: "(string \<times> string) list option"
  db_Sequence :: int

text \<open>
  The database: the rows of the table in insertion order, and whether the handle has
  stopped working, in which case every query returns an error.
\<close>

record database =
  events :: "db_Event list"
  closed :: bool

record GetEventsParams =
  gp_Scope :: string
  gp_EventTypes :: "string list"
  gp_Sequence :: int
  gp_Sequence_2 :: int
  gp_Limit :: int

text \<open>What \<^verbatim>\<open>GetLatestSequence\<close> returns as \<^verbatim>\<open>interface{}\<close>.\<close>

datatype dbvalue = DbNil | DbInt64 int | DbText string

definition db_unavailable :: string where
  "db_unavailable = ''sql: database is closed''"

definition unique_violation :: string where
  "unique_violation = ''UNIQUE constraint failed: events.event_id''"

text \<open>
  \<^verbatim>\<open>INSERT INTO events (...) VALUES (...) RETURNING *\<close>: the primary key rejects a row
  whose \<^verbatim>\<open>event_id\<close> is already in the table.
\<close>

definition CreateEvent :: "database \<Rightarrow> db_Event \<Rightarrow> string + (db_Event \<times> database)" where
  "CreateEvent d p =
     (if closed d then Inl db_unavailable
      else if db_EventID p \<in> set (map db_EventID (events d)) then Inl unique_violation
      else Inr (p, d\<lparr>events := events d @ [p]\<rparr>))"

text \<open>\<^verbatim>\<open>SELECT COALESCE(MAX(sequence), 0) FROM events WHERE scope = ?\<close>\<close>

definition scope_sequences :: "database \<Rightarrow> string \<Rightarrow> int list" where
  "scope_sequences d sc = map db_Sequence (filter (\<lambda>r. db_Scope r = sc) (events d))"

fun max_list :: "int list \<Rightarrow> int option" where
  "max_list [] = None"
| "max_list (x # xs) = (case max_list xs of None \<Rightarrow> Some x | Some m \<Rightarrow> Some (max x m))"

definition coalesce :: "int option \<Rightarrow> int \<Rightarrow> int" where
  "coalesce v dflt = (case v of None \<Rightarrow> dflt | Some x \<Rightarrow> x)"

definition GetLatestSequence :: "database \<Rightarrow> string \<Rightarrow> string + dbvalue" where
  "GetLatestSequence d sc =
     (if closed d then Inl db_unavailable
      else Inr (DbInt64 (coalesce (max_list (scope_sequences d sc)) 0)))"

text \<open>\<^verbatim>\<open>fmt.Sprintf("%d", n)\<close>\<close>

fun show_nat :: "nat \<Rightarrow> string" where
  "show_nat n =
     (if n < 10 then [char_of (48 + n)]
      else show_nat (n div 10) @ [char_of (48 + n mod 10)])"

declare show_nat.simps [simp del]

definition show_int :: "int \<Rightarrow> string" where
  "show_int i = (if i < 0 then CHR ''-'' # show_nat (nat (- i)) else show_nat (nat i))"

subsection \<open>The range query\<close>

text \<open>What the driver is handed for a placeholder and what a placeholder holds.\<close>

datatype sqlvalue = SqlNull | SqlInteger int | SqlText string

text \<open>
  \<^verbatim>\<open>SELECT * FROM events WHERE scope = ? AND (event_type IN (sqlc.slice('event_types'))
  OR sqlc.slice('event_types') IS NULL) AND sequence >= ? AND sequence <= ?
  ORDER BY sequence ASC LIMIT ?\<close>.
  The query names the slice twice, and \<^verbatim>\<open>GetEventsParams\<close> (lines 181 to 187) has one
  field for it: \<^verbatim>\<open>Scope\<close>, \<^verbatim>\<open>EventTypes\<close>, \<^verbatim>\<open>Sequence\<close>, \<^verbatim>\<open>Sequence_2\<close>, \<^verbatim>\<open>Limit\<close>. The
  first occurrence is expanded to one placeholder per listed type (to the literal NULL
  when none is listed); the second stays a single placeholder. The placeholders of the
  query text, in its order:
\<close>

datatype placeholder = ScopeArg | TypeArg nat | SliceArg | LowerArg | UpperArg | LimitArg

definition placeholders :: "nat \<Rightarrow> placeholder list" where
  "placeholders n = ScopeArg # map TypeArg [0..<n] @ [SliceArg, LowerArg, UpperArg, LimitArg]"

text \<open>The arguments handed to the driver, in the order of the fields.\<close>

definition arguments :: "GetEventsParams \<Rightarrow> sqlvalue list" where
  "arguments p =
     SqlText (gp_Scope p) # map SqlText (gp_EventTypes p)
       @ [SqlInteger (gp_Sequence p), SqlInteger (gp_Sequence_2 p), SqlInteger (gp_Limit p)]"

text \<open>
  Arguments are bound to placeholders by position; a placeholder that no argument is
  left for is unbound and reads as NULL.
\<close>

definition bound :: "GetEventsParams \<Rightarrow> placeholder \<Rightarrow> sqlvalue" where
  "bound p ph =
     (case map_of (zip (placeholders (length (gp_EventTypes p))) (arguments p)) ph of
        None \<Rightarrow> SqlNull
      | Some v \<Rightarrow> v)"

text \<open>
  Comparisons of SQLite. A TEXT column against a value: an integer is turned into its
  text first, NULL compares as unknown, which selects nothing.
\<close>

fun text_equals :: "string \<Rightarrow> sqlvalue \<Rightarrow> bool" where
  "text_equals c (SqlText t) = (c = t)"
| "text_equals c (SqlInteger i) = (c = show_int i)"
| "text_equals c SqlNull = False"

text \<open>
  The INTEGER column \<^verbatim>\<open>sequence\<close> against a value: an integer sorts before every text
  (the conversion of a text that spells a number is left out: no text is ever bound
  to these two placeholders), NULL compares as unknown.
\<close>

fun sequence_at_least :: "int \<Rightarrow> sqlvalue \<Rightarrow> bool" where
  "sequence_at_least x (SqlInteger i) = (i \<le> x)"
| "sequence_at_least x (SqlText t) = False"
| "sequence_at_least x SqlNull = False"

fun sequence_at_most :: "int \<Rightarrow> sqlvalue \<Rightarrow> bool" where
  "sequence_at_most x (SqlInteger i) = (x \<le> i)"
| "sequence_at_most x (SqlText t) = True"
| "sequence_at_most x SqlNull = False"

text \<open>The WHERE clause, on the values the placeholders are bound to.\<close>

definition events_where :: "GetEventsParams \<Rightarrow> db_Event \<Rightarrow> bool" where
  "events_where p r \<longleftrightarrow>
     text_equals (db_Scope r) (bound p ScopeArg)
     \<and> (list_ex (\<lambda>i. text_equals (db_EventType r) (bound p (TypeArg i)))
            [0..<length (gp_EventTypes p)]
        \<or> bound p SliceArg = SqlNull)
     \<and> sequence_at_least (db_Sequence r) (bound p LowerArg)
     \<and> sequence_at_most (db_Sequence r) (bound p UpperArg)"

definition datatype_mismatch :: string where
  "datatype_mismatch = ''datatype mismatch''"

text \<open>
  SQLite evaluates the LIMIT first and refuses one that is not an integer; a negative
  one means no limit. Rows of equal sequence keep their insertion order.
\<close>

definition sql_limit :: "int \<Rightarrow> 'a list \<Rightarrow> 'a list" where
  "sql_limit n xs = (if n < 0 then xs else take (nat n) xs)"

definition db_GetEvents :: "database \<Rightarrow> GetEventsParams \<Rightarrow> string + db_Event list" where
  "db_GetEvents d p =
     (if closed d then Inl db_unavailable
      else (case bound p LimitArg of
              SqlInteger n \<Rightarrow>
                Inr (sql_limit n (sort_key db_Sequence (filter (events_where p) (events d))))
            | _ \<Rightarrow> Inl datatype_mismatch))"

section \<open>The sequencer\<close>

definition int64_succ :: "int \<Rightarrow> int" where
  "int64_succ x = (if x = 2 ^ 63 - 1 then - (2 ^ 63) else x + 1)"

text \<open>
  \<^verbatim>\<open>getNextSequence\<close>. The query is an aggregate and always yields a row, so the
  \<^verbatim>\<open>sql.ErrNoRows\<close> branch is never taken; a value that is not an \<^verbatim>\<open>int64\<close> counts as 0.
\<close>

definition getNextSequence :: "database \<Rightarrow> string \<Rightarrow> string + int" where
  "getNextSequence d sc =
     (case GetLatestSequence d sc of
        Inl err \<Rightarrow> Inl err
      | Inr latestSeqInterface \<Rightarrow>
          (let latestSeq = (case latestSeqInterface of DbInt64 seq \<Rightarrow> seq | _ \<Rightarrow> 0)
           in Inr (int64_succ latestSeq)))"

section \<open>Subscribers and streams\<close>

text \<open>
  A server stream (\<^verbatim>\<open>pb.EventService_SubscribeServer\<close>) is a handle; what was sent on it
  and whether its connection is gone are kept in a store of streams, because the
  subscriber registered for the live path and the replay of \<^verbatim>\<open>Subscribe\<close> send on the
  same stream.
\<close>

record stream_state =
  sent :: "Event list"
  broken :: bool

definition stream_closed :: string where
  "stream_closed = ''transport is closing''"

definition Send :: "stream_state \<Rightarrow> Event \<Rightarrow> string + stream_state" where
  "Send st e = (if broken st then Inl stream_closed else Inr (st\<lparr>sent := sent st @ [e]\<rparr>))"

text \<open>\<^verbatim>\<open>eventSubscriber\<close>; \<open>is_done\<close> is true once the channel \<^verbatim>\<open>done\<close> is closed.\<close>

record eventSubscriber =
  eventTypes :: "string list"
  scopes :: "string list"
  filters :: "(string \<times> string) list"
  stream :: nat
  is_done :: bool

text \<open>
  \<^verbatim>\<open>eventServiceServer\<close> with what its methods act on: the database, the map of
  subscribers (an association list; Go ranges over a map in no fixed order, so nothing
  below depends on the order of the list), the streams and the lines written by
  \<^verbatim>\<open>log.Printf\<close>.
\<close>

record server =
  db :: database
  subscribers :: "(string \<times> eventSubscriber) list"
  streams :: "nat \<Rightarrow> stream_state"
  logs :: "string list"

section \<open>Filters\<close>

text \<open>
  The \<^verbatim>\<open>found\<close> loops of \<^verbatim>\<open>eventMatchesSubscriber\<close>:
  \<^verbatim>\<open>for _, x := range xs { if v == x { found = true; break } }\<close>
\<close>

fun found_in :: "string \<Rightarrow> string list \<Rightarrow> bool" where
  "found_in v [] = False"
| "found_in v (x # xs) = (if v = x then True else found_in v xs)"

text \<open>\<^verbatim>\<open>m[key]\<close> on a Go map: the zero value, the empty string, when the key is absent.\<close>

definition index :: "(string \<times> string) list \<Rightarrow> string \<Rightarrow> string" where
  "index m k = (case map_of m k of None \<Rightarrow> [] | Some v \<Rightarrow> v)"

text \<open>
  \<^verbatim>\<open>for key, value := range filters { if event.Metadata[key] != value { return false } }\<close>
\<close>

fun filters_hold :: "(string \<times> string) list \<Rightarrow> (string \<times> string) list \<Rightarrow> bool" where
  "filters_hold md [] = True"
| "filters_hold md ((k, v) # fs) = (if index md k \<noteq> v then False else filters_hold md fs)"

definition eventMatchesSubscriber :: "Event \<Rightarrow> eventSubscriber \<Rightarrow> bool" where
  "eventMatchesSubscriber event subscriber =
     (if length (eventTypes subscriber) > 0 \<and> \<not> found_in (EventType event) (eventTypes subscriber)
      then False
      else if length (scopes subscriber) > 0 \<and> \<not> found_in (Scope event) (scopes subscriber)
      then False
      else filters_hold (Metadata event) (filters subscriber))"

definition eventMatchesFilters :: "Event \<Rightarrow> SubscribeRequest \<Rightarrow> bool" where
  "eventMatchesFilters event req =
     (if length (sr_EventTypes req) > 0 \<and> \<not> found_in (EventType event) (sr_EventTypes req)
      then False
      else if length (sr_Scopes req) > 0 \<and> \<not> found_in (Scope event) (sr_Scopes req)
      then False
      else filters_hold (Metadata event) (sr_Filters req))"

section \<open>Broadcast\<close>

definition send_failed :: "string \<Rightarrow> string \<Rightarrow> string" where
  "send_failed subscriberID err = ''Failed to send event to subscriber '' @ subscriberID @ '': '' @ err"

text \<open>
  The body of the loop of \<^verbatim>\<open>broadcastEvent\<close> for one entry of the map: a subscriber
  that does not match or is done is skipped, a failed send is logged and nothing else.
\<close>

definition deliver :: "Event \<Rightarrow> string \<Rightarrow> eventSubscriber \<Rightarrow> server \<Rightarrow> server" where
  "deliver event subscriberID subscriber s =
     (if eventMatchesSubscriber event subscriber then
        (if is_done subscriber then s
         else (case Send (streams s (stream subscriber)) event of
                 Inl err \<Rightarrow> s\<lparr>logs := logs s @ [send_failed subscriberID err]\<rparr>
               | Inr st \<Rightarrow> s\<lparr>streams := (streams s)(stream subscriber := st)\<rparr>))
      else s)"

fun broadcast_loop :: "Event \<Rightarrow> (string \<times> eventSubscriber) list \<Rightarrow> server \<Rightarrow> server" where
  "broadcast_loop event [] s = s"
| "broadcast_loop event ((subscriberID, subscriber) # rest) s =
     broadcast_loop event rest (deliver event subscriberID subscriber s)"

definition broadcastEvent :: "Event \<Rightarrow> server \<Rightarrow> server" where
  "broadcastEvent event s = broadcast_loop event (subscribers s) s"

section \<open>Publish\<close>

text \<open>
  The two readings of the clock a call of \<^verbatim>\<open>Publish\<close> may take:
  \<^verbatim>\<open>time.Now().UnixNano()\<close> for a generated id, \<^verbatim>\<open>timestamppb.Now()\<close> for a missing timestamp.
\<close>

record clock =
  unix_nano :: int
  now :: timestamppb

text \<open>\<^verbatim>\<open>Timestamp.AsTime().Unix()\<close>: \<^verbatim>\<open>time.Unix(sec, nsec)\<close> carries whole seconds of \<^verbatim>\<open>nsec\<close>.\<close>

definition AsTime_Unix :: "timestamppb \<Rightarrow> int" where
  "AsTime_Unix t = seconds t + nanos t div 1000000000"

text \<open>Lines 86 to 92: the id and the timestamp are filled in when absent.\<close>

definition with_defaults :: "clock \<Rightarrow> Event \<Rightarrow> Event" where
  "with_defaults clk event =
     (let event1 = (if EventId event = [] then event\<lparr>EventId := ''event_'' @ show_int (unix_nano clk)\<rparr>
                    else event);
          event2 = (if Timestamp event1 = None then event1\<lparr>Timestamp := Some (now clk)\<rparr>
                    else event1)
      in event2)"

text \<open>
  Lines 101 to 131: the parameters of the insert. Marshalling the payload and a string
  map cannot fail, so those two error returns have no branch here.
\<close>

definition CreateEventParams :: "Event \<Rightarrow> db_Event" where
  "CreateEventParams event =
     (let payloadJSON = (case Payload event of None \<Rightarrow> [] | Some j \<Rightarrow> j);
          metadataJSON = (if length (Metadata event) > 0 then Some (Metadata event) else None)
      in \<lparr>db_EventID = EventId event,
          db_EventType = EventType event,
          db_Scope = Scope event,
          db_ActorID = ActorId event,
          db_Timestamp = (case Timestamp event of None \<Rightarrow> 0 | Some t \<Rightarrow> AsTime_Unix t),
          db_Payload = (if payloadJSON \<noteq> [] then Some payloadJSON else None),
          db_Metadata = metadataJSON,
          db_Sequence = Sequence event\<rparr>)"

text \<open>
  \<^verbatim>\<open>Publish\<close> up to the assignment \<^verbatim>\<open>event.Sequence = nextSequence\<close> (lines 82 to 99).
  It reads the database and changes nothing.
\<close>

definition Publish_sequence :: "clock \<Rightarrow> Event option \<Rightarrow> database \<Rightarrow> status + Event" where
  "Publish_sequence clk req d =
     (case req of
        None \<Rightarrow> Inl (Status InvalidArgument ''event is required'')
      | Some ev \<Rightarrow>
          (let event = with_defaults clk ev in
           case getNextSequence d (Scope event) of
             Inl err \<Rightarrow> Inl (Status Internal (''failed to get next sequence: '' @ err))
           | Inr nextSequence \<Rightarrow> Inr (event\<lparr>Sequence := nextSequence\<rparr>)))"

text \<open>The rest of \<^verbatim>\<open>Publish\<close> (lines 101 to 143): insert, broadcast, respond.\<close>

definition Publish_store :: "Event \<Rightarrow> server \<Rightarrow> (status + PublishResponse) \<times> server" where
  "Publish_store event s =
     (case CreateEvent (db s) (CreateEventParams event) of
        Inl err \<Rightarrow> (Inl (Status Internal (''failed to store event: '' @ err)), s)
      | Inr (row, d) \<Rightarrow>
          (Inr \<lparr>pr_EventId = EventId event, pr_Sequence = Sequence event, pr_Success = True\<rparr>,
           broadcastEvent event (s\<lparr>db := d\<rparr>)))"

definition Publish :: "clock \<Rightarrow> Event option \<Rightarrow> server \<Rightarrow> (status + PublishResponse) \<times> server" where
  "Publish clk req s =
     (case Publish_sequence clk req (db s) of
        Inl err \<Rightarrow> (Inl err, s)
      | Inr event \<Rightarrow> Publish_store event s)"

section \<open>GetEvents\<close>

text \<open>
  \<^verbatim>\<open>dbEventToProto\<close>: the payload is not rebuilt, the timestamp has whole seconds only, a
  NULL metadata column gives the nil map.
\<close>

definition dbEventToProto :: "db_Event \<Rightarrow> Event" where
  "dbEventToProto dbEvent =
     \<lparr>EventId = db_EventID dbEvent,
      EventType = db_EventType dbEvent,
      Scope = db_Scope dbEvent,
      ActorId = db_ActorID dbEvent,
      Timestamp = Some \<lparr>seconds = db_Timestamp dbEvent, nanos = 0\<rparr>,
      Payload = None,
      Metadata = (case db_Metadata dbEvent of None \<Rightarrow> [] | Some m \<Rightarrow> m),
      Sequence = db_Sequence dbEvent\<rparr>"

text \<open>Lines 151 to 154: \<^verbatim>\<open>limit := int64(50); if req.Limit > 0 && req.Limit <= 100 { limit = ... }\<close>\<close>

definition limit_of :: "GetEventsRequest \<Rightarrow> int" where
  "limit_of req = (if ge_Limit req > 0 \<and> ge_Limit req \<le> 100 then ge_Limit req else 50)"

text \<open>Lines 156 to 159.\<close>

definition fromSeq_of :: "GetEventsRequest \<Rightarrow> int" where
  "fromSeq_of req = (if ge_FromSequence req < 0 then 0 else ge_FromSequence req)"

text \<open>Lines 161 to 178: an upper bound that is not positive is replaced by the latest sequence.\<close>

definition toSeq_of :: "database \<Rightarrow> GetEventsRequest \<Rightarrow> status + int" where
  "toSeq_of d req =
     (if ge_ToSequence req \<le> 0 then
        (case GetLatestSequence d (ge_Scope req) of
           Inl err \<Rightarrow> Inl (Status Internal (''failed to get latest sequence: '' @ err))
         | Inr latestSeqInterface \<Rightarrow>
             Inr (case latestSeqInterface of DbInt64 seq \<Rightarrow> seq | _ \<Rightarrow> 0))
      else Inr (ge_ToSequence req))"

definition GetEvents :: "database \<Rightarrow> GetEventsRequest \<Rightarrow> status + GetEventsResponse" where
  "GetEvents d req =
     (if ge_Scope req = [] then Inl (Status InvalidArgument ''scope is required'')
      else
        (case toSeq_of d req of
           Inl err \<Rightarrow> Inl err
         | Inr toSeq \<Rightarrow>
             (case db_GetEvents d
                     \<lparr>gp_Scope = ge_Scope req, gp_EventTypes = ge_EventTypes req,
                      gp_Sequence = fromSeq_of req, gp_Sequence_2 = toSeq,
                      gp_Limit = limit_of req\<rparr> of
                Inl err \<Rightarrow> Inl (Status Internal (''failed to get events: '' @ err))
              | Inr dbEvents \<Rightarrow>
                  (let evs = map dbEventToProto dbEvents;
                       hasMore = (int (length evs) = limit_of req);
                       nextSequence = (if hasMore \<and> length evs > 0
                                       then int64_succ (Sequence (last evs)) else 0)
                   in Inr \<lparr>Events = evs, HasMore = hasMore, NextSequence = nextSequence\<rparr>))))"

section \<open>Subscribe\<close>

definition subscriberID :: "int \<Rightarrow> string" where
  "subscriberID t = ''subscriber_'' @ show_int t"

definition new_subscriber :: "SubscribeRequest \<Rightarrow> nat \<Rightarrow> eventSubscriber" where
  "new_subscriber req h =
     \<lparr>eventTypes = sr_EventTypes req, scopes = sr_Scopes req, filters = sr_Filters req,
      stream = h, is_done = False\<rparr>"

text \<open>
  Lines 43 to 65: the subscriber is put in the map under an id made from the clock
  reading \<open>t\<close>, before anything is read from the database.
\<close>

definition Subscribe_register :: "int \<Rightarrow> SubscribeRequest \<Rightarrow> nat \<Rightarrow> server \<Rightarrow> server" where
  "Subscribe_register t req h s =
     s\<lparr>subscribers := AList.update (subscriberID t) (new_subscriber req h) (subscribers s),
       logs := logs s @ [''Client subscribed: '' @ subscriberID t]\<rparr>"

text \<open>
  The deferred function of lines 58 to 63. Once the subscriber is out of the map its
  \<^verbatim>\<open>done\<close> channel cannot be seen by a later broadcast, so closing it leaves no trace.
\<close>

definition Subscribe_cleanup :: "int \<Rightarrow> server \<Rightarrow> server" where
  "Subscribe_cleanup t s = s\<lparr>subscribers := AList.delete (subscriberID t) (subscribers s)\<rparr>"

text \<open>The inner loop of \<^verbatim>\<open>sendHistoricalEvents\<close> (lines 233 to 239).\<close>

fun send_events :: "SubscribeRequest \<Rightarrow> nat \<Rightarrow> Event list \<Rightarrow> server \<Rightarrow> error option \<times> server" where
  "send_events req h [] s = (None, s)"
| "send_events req h (event # rest) s =
     (if eventMatchesFilters event req then
        (case Send (streams s h) event of
           Inl err \<Rightarrow> (Some (SendError err), s)
         | Inr st \<Rightarrow> send_events req h rest (s\<lparr>streams := (streams s)(h := st)\<rparr>))
      else send_events req h rest s)"

text \<open>The request of lines 222 to 227; \<^verbatim>\<open>ToSequence\<close> is left at its zero value.\<close>

definition history_request :: "SubscribeRequest \<Rightarrow> string \<Rightarrow> GetEventsRequest" where
  "history_request req scope =
     \<lparr>ge_Scope = scope, ge_EventTypes = sr_EventTypes req,
      ge_FromSequence = sr_FromSequence req, ge_ToSequence = 0, ge_Limit = 100\<rparr>"

text \<open>The outer loop (lines 220 to 240).\<close>

fun replay_scopes :: "SubscribeRequest \<Rightarrow> nat \<Rightarrow> string list \<Rightarrow> server \<Rightarrow> error option \<times> server" where
  "replay_scopes req h [] s = (None, s)"
| "replay_scopes req h (scope # rest) s =
     (case GetEvents (db s) (history_request req scope) of
        Inl err \<Rightarrow> (Some (StatusError err), s)
      | Inr resp \<Rightarrow>
          (case send_events req h (Events resp) s of
             (Some err, s') \<Rightarrow> (Some err, s')
           | (None, s') \<Rightarrow> replay_scopes req h rest s'))"

definition sendHistoricalEvents :: "nat \<Rightarrow> SubscribeRequest \<Rightarrow> server \<Rightarrow> error option \<times> server" where
  "sendHistoricalEvents h req s =
     (if length (sr_Scopes req) = 0 then (None, s)
      else replay_scopes req h (sr_Scopes req) s)"

text \<open>
  \<^verbatim>\<open>Subscribe\<close> until it blocks on \<^verbatim>\<open>stream.Context().Done()\<close>. When the replay fails
  the call returns its error and the deferred cleanup runs.
\<close>

definition Subscribe_start :: "int \<Rightarrow> SubscribeRequest \<Rightarrow> nat \<Rightarrow> server \<Rightarrow> error option \<times> server" where
  "Subscribe_start t req h s =
     (let s1 = Subscribe_register t req h s in
      if sr_FromSequence req \<noteq> 0 then
        (case sendHistoricalEvents h req s1 of
           (Some err, s2) \<Rightarrow> (Some err, Subscribe_cleanup t s2)
         | (None, s2) \<Rightarrow> (None, s2))
      else (None, s1))"

text \<open>What happens when the context is done (lines 76 to 78, then the deferred cleanup).\<close>

definition Subscribe_finish :: "int \<Rightarrow> server \<Rightarrow> server" where
  "Subscribe_finish t s =
     Subscribe_cleanup t (s\<lparr>logs := logs s @ [''Client unsubscribed: '' @ subscriberID t]\<rparr>)"

section \<open>Reference notions\<close>

text \<open>
  The largest sequence stored for a scope, 0 when the scope has no row: what the
  statements below compare the queries with.
\<close>

definition latest_sequence :: "database \<Rightarrow> string \<Rightarrow> int" where
  "latest_sequence d sc =
     (if scope_sequences d sc = [] then 0 else Max (set (scope_sequences d sc)))"

text \<open>The status codes a caller would read as a conflict.\<close>

fun is_conflict :: "(status + 'a) \<Rightarrow> bool" where
  "is_conflict (Inl (Status c m)) = (c = AlreadyExists \<or> c = Aborted)"
| "is_conflict (Inr r) = False"

fun is_invalid_argument :: "(status + 'a) \<Rightarrow> bool" where
  "is_invalid_argument (Inl (Status c m)) = (c = InvalidArgument)"
| "is_invalid_argument (Inr r) = False"

section \<open>Example data\<close>

definition example_clock :: clock where
  "example_clock = \<lparr>unix_nano = 1700000000000000000, now = \<lparr>seconds = 1700000000, nanos = 0\<rparr>\<rparr>"

definition example_event :: "string \<Rightarrow> string \<Rightarrow> string \<Rightarrow> Event" where
  "example_event i ty sc =
     \<lparr>EventId = i, EventType = ty, Scope = sc, ActorId = ''user:1'',
      Timestamp = Some \<lparr>seconds = 1700000000, nanos = 0\<rparr>, Payload = None, Metadata = [],
      Sequence = 0\<rparr>"

definition example_row :: "string \<Rightarrow> string \<Rightarrow> string \<Rightarrow> int \<Rightarrow> db_Event" where
  "example_row i ty sc n =
     \<lparr>db_EventID = i, db_EventType = ty, db_Scope = sc, db_ActorID = ''user:1'',
      db_Timestamp = 1700000000, db_Payload = None, db_Metadata = None, db_Sequence = n\<rparr>"

definition no_streams :: "nat \<Rightarrow> stream_state" where
  "no_streams = (\<lambda>h. \<lparr>sent = [], broken = False\<rparr>)"

definition example_server :: "db_Event list \<Rightarrow> server" where
  "example_server rows =
     \<lparr>db = \<lparr>events = rows, closed = False\<rparr>, subscribers = [], streams = no_streams, logs = []\<rparr>"

section \<open>The filter and the removal mark, in the words of the specification\<close>

text \<open>
  The three checks as the specification words them: the type set is empty or contains
  the event's type, the scope set is empty or contains the event's scope, and every key
  of the metadata filters is present in the event's metadata with an equal value.
\<close>

definition spec_matches :: "Event \<Rightarrow> eventSubscriber \<Rightarrow> bool" where
  "spec_matches event subscriber \<longleftrightarrow>
     (eventTypes subscriber = [] \<or> EventType event \<in> set (eventTypes subscriber))
     \<and> (scopes subscriber = [] \<or> Scope event \<in> set (scopes subscriber))
     \<and> (\<forall>(k, v) \<in> set (filters subscriber). map_of (Metadata event) k = Some v)"

text \<open>
  The marks the service has for a subscriber that a broadcast must leave out: it is gone
  from the map, or its \<^verbatim>\<open>done\<close> channel is closed.
\<close>

definition marked_for_removal :: "server \<Rightarrow> string \<Rightarrow> bool" where
  "marked_for_removal s sid =
     (case map_of (subscribers s) sid of None \<Rightarrow> True | Some sub \<Rightarrow> is_done sub)"

definition example_subscriber ::
  "string list \<Rightarrow> string list \<Rightarrow> (string \<times> string) list \<Rightarrow> nat \<Rightarrow> eventSubscriber" where
  "example_subscriber tys scs fs h =
     \<lparr>eventTypes = tys, scopes = scs, filters = fs, stream = h, is_done = False\<rparr>"

text \<open>Whether the loop of \<^verbatim>\<open>broadcastEvent\<close> calls \<^verbatim>\<open>Send\<close> for a subscriber.\<close>

definition receives :: "Event \<Rightarrow> eventSubscriber \<Rightarrow> bool" where
  "receives e sub \<longleftrightarrow> eventMatchesSubscriber e sub \<and> \<not> is_done sub"

text \<open>
  A server with two subscribers that take every event: \<open>X\<close> on stream 0, whose
  connection is gone, and \<open>Y\<close> on stream 1.
\<close>

definition example_registry :: server where
  "example_registry =
     (example_server [])
       \<lparr>subscribers := [(''X'', example_subscriber [] [] [] 0), (''Y'', example_subscriber [] [] [] 1)],
        streams := no_streams(0 := \<lparr>sent = [], broken = True\<rparr>)\<rparr>"

section \<open>Concurrent calls of Publish\<close>

text \<open>
  \<^verbatim>\<open>Publish\<close> takes no lock between reading the latest sequence
  (\<^verbatim>\<open>getNextSequence\<close>, line 95) and inserting the row (\<^verbatim>\<open>CreateEvent\<close>, line 122); the
  mutex of the server guards the map of subscribers only. Each of the two queries is one
  step of a call, and steps of other calls may come between them. A call is waiting to
  read, or holds its sequenced event, or has answered.
\<close>

datatype progress =
  Waiting clock "Event option"
  | Sequenced Event
  | Answered "status + PublishResponse"

fun step_call :: "progress \<Rightarrow> server \<Rightarrow> progress \<times> server" where
  "step_call (Waiting clk req) s =
     (case Publish_sequence clk req (db s) of
        Inl err \<Rightarrow> (Answered (Inl err), s)
      | Inr event \<Rightarrow> (Sequenced event, s))"
| "step_call (Sequenced event) s =
     (case Publish_store event s of (r, s') \<Rightarrow> (Answered r, s'))"
| "step_call (Answered r) s = (Answered r, s)"

text \<open>A schedule names, step by step, the call that moves.\<close>

fun run :: "nat list \<Rightarrow> progress list \<Rightarrow> server \<Rightarrow> progress list \<times> server" where
  "run [] calls s = (calls, s)"
| "run (i # schedule) calls s =
     (if i < length calls then
        (case step_call (calls ! i) s of (c, s') \<Rightarrow> run schedule (calls[i := c]) s')
      else run schedule calls s)"

section \<open>Properties\<close>

subsection \<open>The sequencer\<close>

lemma max_list_Max: "max_list xs = (if xs = [] then None else Some (Max (set xs)))"
  by (induction xs) (auto simp: max_def split: option.splits)

lemma GetLatestSequence_open:
  "\<not> closed d \<Longrightarrow> GetLatestSequence d sc = Inr (DbInt64 (latest_sequence d sc))"
  by (simp add: GetLatestSequence_def latest_sequence_def max_list_Max coalesce_def)

lemma GetLatestSequence_closed:
  "closed d \<Longrightarrow> GetLatestSequence d sc = Inl db_unavailable"
  by (simp add: GetLatestSequence_def)

lemma getNextSequence_open:
  "\<not> closed d \<Longrightarrow> getNextSequence d sc = Inr (int64_succ (latest_sequence d sc))"
  by (simp add: getNextSequence_def GetLatestSequence_open)

lemma getNextSequence_closed:
  "closed d \<Longrightarrow> getNextSequence d sc = Inl db_unavailable"
  by (simp add: getNextSequence_def GetLatestSequence_closed)

subsection \<open>Publish\<close>

lemma with_defaults_fields [simp]:
  "Scope (with_defaults clk e) = Scope e"
  "EventType (with_defaults clk e) = EventType e"
  "ActorId (with_defaults clk e) = ActorId e"
  "Metadata (with_defaults clk e) = Metadata e"
  "Payload (with_defaults clk e) = Payload e"
  "Sequence (with_defaults clk e) = Sequence e"
  by (simp_all add: with_defaults_def Let_def)

lemma with_defaults_EventId:
  "EventId (with_defaults clk e) =
     (if EventId e = [] then ''event_'' @ show_int (unix_nano clk) else EventId e)"
  by (simp add: with_defaults_def Let_def)

lemma CreateEventParams_fields [simp]:
  "db_EventID (CreateEventParams e) = EventId e"
  "db_EventType (CreateEventParams e) = EventType e"
  "db_Scope (CreateEventParams e) = Scope e"
  "db_Sequence (CreateEventParams e) = Sequence e"
  by (simp_all add: CreateEventParams_def Let_def)

lemma broadcast_loop_frame [simp]:
  "db (broadcast_loop e subs s) = db s"
  "subscribers (broadcast_loop e subs s) = subscribers s"
  by (induction subs arbitrary: s)
     (auto simp: deliver_def Send_def split: sum.splits)

lemma broadcastEvent_frame [simp]:
  "db (broadcastEvent e s) = db s"
  "subscribers (broadcastEvent e s) = subscribers s"
  by (simp_all add: broadcastEvent_def)

text \<open>The event a successful call stores and broadcasts.\<close>

lemma Publish_sequence_open:
  "\<not> closed d \<Longrightarrow>
   Publish_sequence clk (Some e) d =
     Inr ((with_defaults clk e)\<lparr>Sequence := int64_succ (latest_sequence d (Scope e))\<rparr>)"
  by (simp add: Publish_sequence_def getNextSequence_open Let_def)

lemma Publish_missing:
  "Publish clk None s = (Inl (Status InvalidArgument ''event is required''), s)"
  by (simp add: Publish_def Publish_sequence_def)

lemma Publish_closed:
  "closed (db s) \<Longrightarrow>
   Publish clk (Some e) s =
     (Inl (Status Internal (''failed to get next sequence: '' @ db_unavailable)), s)"
  by (simp add: Publish_def Publish_sequence_def getNextSequence_closed Let_def)

lemma Publish_existing_id:
  "\<not> closed (db s) \<Longrightarrow> EventId (with_defaults clk e) \<in> set (map db_EventID (events (db s))) \<Longrightarrow>
   Publish clk (Some e) s =
     (Inl (Status Internal (''failed to store event: '' @ unique_violation)), s)"
  by (simp add: Publish_def Publish_sequence_open Publish_store_def CreateEvent_def)

lemma Publish_fresh:
  assumes "\<not> closed (db s)"
    and "EventId (with_defaults clk e) \<notin> set (map db_EventID (events (db s)))"
  shows "Publish clk (Some e) s =
     (let ev = (with_defaults clk e)\<lparr>Sequence := int64_succ (latest_sequence (db s) (Scope e))\<rparr>
      in (Inr \<lparr>pr_EventId = EventId ev, pr_Sequence = Sequence ev, pr_Success = True\<rparr>,
          broadcastEvent ev
            (s\<lparr>db := (db s)\<lparr>events := events (db s) @ [CreateEventParams ev]\<rparr>\<rparr>)))"
  using assms
  by (simp add: Publish_def Publish_sequence_open Publish_store_def CreateEvent_def Let_def)

subsection \<open>C2: the sequencer\<close>

text \<open>
  C2. Called on a working database, the sequencer returns the largest sequence stored for
  the scope plus one (short of the last \<^verbatim>\<open>int64\<close>); a scope without events has latest
  sequence 0, and the first event published to it is stored and answered with sequence 1.
\<close>

theorem getNextSequence_latest_plus_one:
  assumes "\<not> closed d"
  shows "GetLatestSequence d sc =
           Inr (DbInt64 (if scope_sequences d sc = [] then 0 else Max (set (scope_sequences d sc))))
       \<and> (latest_sequence d sc \<noteq> 2 ^ 63 - 1 \<longrightarrow>
            getNextSequence d sc = Inr (latest_sequence d sc + 1))
       \<and> (scope_sequences d sc = [] \<longrightarrow> getNextSequence d sc = Inr 1)
       \<and> (db s = d \<and> Scope e = sc \<and> scope_sequences d sc = []
            \<and> EventId (with_defaults clk e) \<notin> set (map db_EventID (events d)) \<longrightarrow>
            fst (Publish clk (Some e) s) =
              Inr \<lparr>pr_EventId = EventId (with_defaults clk e), pr_Sequence = 1, pr_Success = True\<rparr>
            \<and> scope_sequences (db (snd (Publish clk (Some e) s))) sc = [1])"
proof -
  have a: "GetLatestSequence d sc =
           Inr (DbInt64 (if scope_sequences d sc = [] then 0 else Max (set (scope_sequences d sc))))"
    using assms GetLatestSequence_open [of d sc] by (simp add: latest_sequence_def)
  have b: "latest_sequence d sc \<noteq> 2 ^ 63 - 1 \<longrightarrow>
            getNextSequence d sc = Inr (latest_sequence d sc + 1)"
    using assms by (simp add: getNextSequence_open int64_succ_def)
  have c: "scope_sequences d sc = [] \<longrightarrow> getNextSequence d sc = Inr 1"
    using assms by (simp add: getNextSequence_open int64_succ_def latest_sequence_def)
  have d: "db s = d \<and> Scope e = sc \<and> scope_sequences d sc = []
            \<and> EventId (with_defaults clk e) \<notin> set (map db_EventID (events d)) \<longrightarrow>
            fst (Publish clk (Some e) s) =
              Inr \<lparr>pr_EventId = EventId (with_defaults clk e), pr_Sequence = 1, pr_Success = True\<rparr>
            \<and> scope_sequences (db (snd (Publish clk (Some e) s))) sc = [1]"
  proof (intro impI, elim conjE)
    assume h: "db s = d" "Scope e = sc" "scope_sequences d sc = []"
      "EventId (with_defaults clk e) \<notin> set (map db_EventID (events d))"
    have l: "latest_sequence (db s) (Scope e) = 0"
      using h by (simp add: latest_sequence_def)
    have p: "Publish clk (Some e) s =
       (Inr \<lparr>pr_EventId = EventId (with_defaults clk e), pr_Sequence = 1, pr_Success = True\<rparr>,
        broadcastEvent ((with_defaults clk e)\<lparr>Sequence := 1\<rparr>)
          (s\<lparr>db := (db s)\<lparr>events := events (db s) @ [CreateEventParams ((with_defaults clk e)\<lparr>Sequence := 1\<rparr>)]\<rparr>\<rparr>))"
      using Publish_fresh [of s clk e] assms h l by (simp add: Let_def int64_succ_def)
    show "fst (Publish clk (Some e) s) =
              Inr \<lparr>pr_EventId = EventId (with_defaults clk e), pr_Sequence = 1, pr_Success = True\<rparr>
            \<and> scope_sequences (db (snd (Publish clk (Some e) s))) sc = [1]"
      using h by (simp add: p scope_sequences_def)
  qed
  show ?thesis using a b c d by blast
qed

theorem getNextSequence_latest_plus_one_witness:
  "\<not> closed (db (example_server []))
   \<and> getNextSequence (db (example_server [example_row ''a'' ''message.sent'' ''channel:1'' 1,
                                         example_row ''b'' ''message.sent'' ''channel:2'' 7,
                                         example_row ''c'' ''message.sent'' ''channel:1'' 2]))
       ''channel:1'' = Inr 3
   \<and> getNextSequence (db (example_server [])) ''channel:1'' = Inr 1
   \<and> fst (Publish example_clock
         (Some (example_event ''a'' ''message.sent'' ''channel:1'')) (example_server []))
       = Inr \<lparr>pr_EventId = ''a'', pr_Sequence = 1, pr_Success = True\<rparr>"
  using getNextSequence_latest_plus_one
     [of "db (example_server [example_row ''a'' ''message.sent'' ''channel:1'' 1,
                                         example_row ''b'' ''message.sent'' ''channel:2'' 7,
                                         example_row ''c'' ''message.sent'' ''channel:1'' 2])"
         "''channel:1''"]
    getNextSequence_latest_plus_one
     [of "db (example_server [])" "''channel:1''" "example_server []"
         "example_event ''a'' ''message.sent'' ''channel:1''" example_clock]
  by (simp add: example_server_def example_row_def example_event_def latest_sequence_def
      scope_sequences_def with_defaults_def)

subsection \<open>C10: GetEvents without a scope\<close>

text \<open>
  C10. A call of GetEvents whose scope is the empty string fails with InvalidArgument and
  returns no events. The answer is the same for every database, a closed one included,
  whose queries would fail: the check comes before any read of the store.
\<close>

theorem GetEvents_empty_scope:
  "ge_Scope req = [] \<Longrightarrow> GetEvents d req = Inl (Status InvalidArgument ''scope is required'')"
  by (simp add: GetEvents_def)

theorem GetEvents_empty_scope_witness:
  "GetEvents \<lparr>events = [example_row ''a'' ''message.sent'' [] 1], closed = True\<rparr>
     \<lparr>ge_Scope = [], ge_EventTypes = [], ge_FromSequence = 0, ge_ToSequence = 0, ge_Limit = 0\<rparr>
   = Inl (Status InvalidArgument ''scope is required'')"
  using GetEvents_empty_scope
    [of "\<lparr>ge_Scope = [], ge_EventTypes = [], ge_FromSequence = 0, ge_ToSequence = 0, ge_Limit = 0\<rparr>"
        "\<lparr>events = [example_row ''a'' ''message.sent'' [] 1], closed = True\<rparr>"]
  by simp

subsection \<open>C3: publishing an event id twice\<close>

text \<open>
  C3, as stated: publishing an event whose id is already stored returns a Conflict error.
  It does not: the insert fails on the primary key and Publish wraps that failure, like
  any other failure of the insert, in a status of code Internal.
\<close>

theorem Publish_duplicate_counterexample:
  "fst (Publish example_clock (Some (example_event ''e1'' ''message.sent'' ''channel:1''))
          (example_server [example_row ''e1'' ''message.sent'' ''channel:1'' 1]))
     = Inl (Status Internal ''failed to store event: UNIQUE constraint failed: events.event_id'')
   \<and> \<not> is_conflict
         (fst (Publish example_clock (Some (example_event ''e1'' ''message.sent'' ''channel:1''))
                 (example_server [example_row ''e1'' ''message.sent'' ''channel:1'' 1])))"
  by (simp add: Publish_existing_id with_defaults_EventId example_event_def example_server_def
      example_row_def unique_violation_def)

text \<open>
  C3, amended: publishing an event whose id (the given one, or the generated one when none
  is given) is already stored returns an error of code Internal and leaves the whole
  state as it was: no row is added, nothing is sent to any subscriber, nothing is logged.
\<close>

theorem Publish_duplicate_rejected:
  assumes "EventId (with_defaults clk e) \<in> set (map db_EventID (events (db s)))"
  shows "Publish clk (Some e) s =
           (Inl (Status Internal
                  (if closed (db s) then ''failed to get next sequence: '' @ db_unavailable
                   else ''failed to store event: '' @ unique_violation)), s)"
  using assms by (simp add: Publish_existing_id Publish_closed)

theorem Publish_duplicate_rejected_witness:
  "EventId (with_defaults example_clock (example_event ''e1'' ''message.sent'' ''channel:1''))
     \<in> set (map db_EventID (events (db (example_server [example_row ''e1'' ''message.sent'' ''channel:1'' 1]))))
   \<and> Publish example_clock (Some (example_event ''e1'' ''message.sent'' ''channel:1''))
          (example_server [example_row ''e1'' ''message.sent'' ''channel:1'' 1])
     = (Inl (Status Internal (''failed to store event: '' @ unique_violation)),
        example_server [example_row ''e1'' ''message.sent'' ''channel:1'' 1])"
  using Publish_duplicate_rejected
    [of example_clock "example_event ''e1'' ''message.sent'' ''channel:1''"
        "example_server [example_row ''e1'' ''message.sent'' ''channel:1'' 1]"]
  by (simp add: with_defaults_EventId example_event_def example_server_def example_row_def)

subsection \<open>C4: validation in Publish\<close>

text \<open>
  C4, as stated: Publish fails with InvalidArgument when the event type is empty. It does
  not: the only check is that the event is present, and an event without a type is
  sequenced, stored and answered like any other.
\<close>

theorem Publish_empty_type_counterexample:
  "fst (Publish example_clock (Some (example_event ''e1'' [] ''channel:1'')) (example_server []))
     = Inr \<lparr>pr_EventId = ''e1'', pr_Sequence = 1, pr_Success = True\<rparr>
   \<and> map db_EventType
         (events (db (snd (Publish example_clock (Some (example_event ''e1'' [] ''channel:1''))
                            (example_server []))))) = [[]]"
  by (simp add: Publish_fresh with_defaults_EventId example_event_def example_server_def
      latest_sequence_def scope_sequences_def int64_succ_def Let_def)

text \<open>
  C4, amended: Publish fails with InvalidArgument, with the message that the event is
  required, when the event is missing; the state is untouched, whatever the database, so
  the rejection comes before sequencing and persistence. An event that is present and has
  a scope is never rejected as an invalid argument, whatever its type.
\<close>

theorem Publish_validation:
  "Publish clk None s = (Inl (Status InvalidArgument ''event is required''), s)
   \<and> (Scope e \<noteq> [] \<longrightarrow> \<not> is_invalid_argument (fst (Publish clk (Some e) s)))"
proof -
  have "\<not> is_invalid_argument (fst (Publish clk (Some e) s))"
  proof (cases "closed (db s)")
    case True
    then show ?thesis by (simp add: Publish_closed)
  next
    case False
    show ?thesis
    proof (cases "EventId (with_defaults clk e) \<in> set (map db_EventID (events (db s)))")
      case True
      with False show ?thesis by (simp add: Publish_existing_id)
    next
      case False
      with \<open>\<not> closed (db s)\<close> show ?thesis by (simp add: Publish_fresh Let_def)
    qed
  qed
  then show ?thesis by (simp add: Publish_missing)
qed

theorem Publish_validation_witness:
  "Scope (example_event ''e1'' [] ''channel:1'') \<noteq> []
   \<and> Publish example_clock None (example_server [])
       = (Inl (Status InvalidArgument ''event is required''), example_server [])
   \<and> \<not> is_invalid_argument
         (fst (Publish example_clock (Some (example_event ''e1'' [] ''channel:1'')) (example_server [])))"
  using Publish_validation
    [of example_clock "example_server []" "example_event ''e1'' [] ''channel:1''"]
  by (simp add: example_event_def)

subsection \<open>Filters\<close>

lemma found_in_set: "found_in v xs \<longleftrightarrow> v \<in> set xs"
  by (induction xs) auto

lemma filters_hold_iff: "filters_hold md fs \<longleftrightarrow> (\<forall>(k, v) \<in> set fs. index md k = v)"
  by (induction fs) (auto split: if_splits)

lemma eventMatchesSubscriber_iff:
  "eventMatchesSubscriber e sub \<longleftrightarrow>
     (eventTypes sub = [] \<or> EventType e \<in> set (eventTypes sub))
     \<and> (scopes sub = [] \<or> Scope e \<in> set (scopes sub))
     \<and> (\<forall>(k, v) \<in> set (filters sub). index (Metadata e) k = v)"
  by (auto simp: eventMatchesSubscriber_def found_in_set filters_hold_iff)

lemma eventMatchesFilters_eq:
  "eventMatchesFilters e req = eventMatchesSubscriber e (new_subscriber req h)"
  by (simp add: eventMatchesFilters_def eventMatchesSubscriber_def new_subscriber_def)

subsection \<open>What a broadcast does to streams and log\<close>

lemma deliver_frame [simp]:
  "db (deliver e i sub s) = db s"
  "subscribers (deliver e i sub s) = subscribers s"
  "broken (streams (deliver e i sub s) h) = broken (streams s h)"
  by (simp_all add: deliver_def Send_def)

lemma deliver_sent:
  "sent (streams (deliver e i sub s) h) =
     sent (streams s h) @
       (if stream sub = h \<and> receives e sub \<and> \<not> broken (streams s h) then [e] else [])"
  by (simp add: deliver_def Send_def receives_def)

lemma deliver_logs:
  "logs (deliver e i sub s) =
     logs s @
       (if receives e sub \<and> broken (streams s (stream sub)) then [send_failed i stream_closed]
        else [])"
  by (simp add: deliver_def Send_def receives_def)

lemma broadcast_loop_broken [simp]:
  "broken (streams (broadcast_loop e subs s) h) = broken (streams s h)"
proof (induction subs arbitrary: s)
  case Nil
  then show ?case by simp
next
  case (Cons p subs)
  obtain i sub where p: "p = (i, sub)" by (cases p)
  show ?case
    by (simp add: p Cons.IH)
qed

lemma broadcast_loop_sent:
  "sent (streams (broadcast_loop e subs s) h) =
     sent (streams s h) @
       (if broken (streams s h) then []
        else replicate (length (filter (\<lambda>(i, sub). stream sub = h \<and> receives e sub) subs)) e)"
proof (induction subs arbitrary: s)
  case Nil
  then show ?case by simp
next
  case (Cons p subs)
  obtain i sub where p: "p = (i, sub)" by (cases p)
  show ?case
    by (simp add: p Cons.IH deliver_sent replicate_app_Cons_same)
qed
lemma broadcast_loop_logs:
  "logs (broadcast_loop e subs s) =
     logs s @ map (\<lambda>(i, sub). send_failed i stream_closed)
                (filter (\<lambda>(i, sub). receives e sub \<and> broken (streams s (stream sub))) subs)"
proof (induction subs arbitrary: s)
  case Nil
  then show ?case by simp
next
  case (Cons p subs)
  obtain i sub where p: "p = (i, sub)" by (cases p)
  show ?case
    by (simp add: p Cons.IH deliver_logs)
qed

text \<open>When every subscriber has a stream of its own, a stream gets at most one copy.\<close>

lemma own_stream_count:
  assumes "distinct (map (stream \<circ> snd) subs)" and "(i, sub) \<in> set subs"
  shows "length (filter (\<lambda>(j, sub'). stream sub' = stream sub \<and> P sub') subs) =
           (if P sub then 1 else 0)"
  using assms
proof (induction subs)
  case Nil
  then show ?case by simp
next
  case (Cons p subs)
  obtain j sub' where p: "p = (j, sub')" by (cases p)
  show ?case
  proof (cases "p = (i, sub)")
    case True
    have "\<forall>q \<in> set subs. stream (snd q) \<noteq> stream sub"
      using Cons.prems(1) True by (auto simp: image_iff)
    then have "filter (\<lambda>(j, sub'). stream sub' = stream sub \<and> P sub') subs = []"
      by (auto simp: filter_empty_conv)
    then show ?thesis using True by simp
  next
    case False
    then have in_rest: "(i, sub) \<in> set subs" using Cons.prems(2) by simp
    then have "stream sub' \<noteq> stream sub"
      using Cons.prems(1) p by (force simp: image_iff)
    then show ?thesis using Cons.IH Cons.prems(1) in_rest p by simp
  qed
qed

lemma broadcastEvent_own_stream:
  assumes "distinct (map (stream \<circ> snd) (subscribers s))" and "(i, sub) \<in> set (subscribers s)"
    and "\<not> broken (streams s (stream sub))"
  shows "sent (streams (broadcastEvent e s) (stream sub)) =
           sent (streams s (stream sub)) @ (if receives e sub then [e] else [])"
  using assms own_stream_count [of "subscribers s" i sub "receives e"]
  by (simp add: broadcastEvent_def broadcast_loop_sent)

subsection \<open>C5: who receives a broadcast\<close>

text \<open>
  C5, as stated: an event is delivered to a live subscription if and only if the three
  checks pass, the third being that every key of the metadata filters is present in the
  event's metadata with an equal value. The code reads the metadata with \<^verbatim>\<open>m[key]\<close>,
  which is the empty string for an absent key: a filter that asks for the empty string
  lets an event without that key through.
\<close>

theorem broadcast_filter_counterexample:
  "sent (streams
          (broadcastEvent (example_event ''e1'' ''message.sent'' ''channel:1'')
             ((example_server [])\<lparr>subscribers :=
                 [(''subscriber_1'', example_subscriber [] [] [(''room'', [])] 0)]\<rparr>)) 0)
     = [example_event ''e1'' ''message.sent'' ''channel:1'']
   \<and> \<not> spec_matches (example_event ''e1'' ''message.sent'' ''channel:1'')
         (example_subscriber [] [] [(''room'', [])] 0)"
  by (simp add: broadcastEvent_def deliver_def Send_def eventMatchesSubscriber_def index_def
      spec_matches_def example_event_def example_subscriber_def example_server_def no_streams_def)

text \<open>
  C5, amended: for every event and every live subscription (registered, not done, on a
  working stream of its own), the broadcast sends the event to that subscription, once,
  if and only if the subscription's event types are empty or contain the event's type,
  its scopes are empty or contain the event's scope, and for every key of its metadata
  filters the event's metadata, read as the empty string where the key is absent, has
  the filter's value.
\<close>

theorem broadcast_filter:
  assumes "(i, sub) \<in> set (subscribers s)"
    and "distinct (map (stream \<circ> snd) (subscribers s))"
    and "\<not> is_done sub"
    and "\<not> broken (streams s (stream sub))"
  shows "sent (streams (broadcastEvent e s) (stream sub)) =
           sent (streams s (stream sub)) @
             (if (eventTypes sub = [] \<or> EventType e \<in> set (eventTypes sub))
                 \<and> (scopes sub = [] \<or> Scope e \<in> set (scopes sub))
                 \<and> (\<forall>(k, v) \<in> set (filters sub).
                        (case map_of (Metadata e) k of None \<Rightarrow> [] | Some w \<Rightarrow> w) = v)
              then [e] else [])"
proof -
  have "receives e sub \<longleftrightarrow>
          (eventTypes sub = [] \<or> EventType e \<in> set (eventTypes sub))
          \<and> (scopes sub = [] \<or> Scope e \<in> set (scopes sub))
          \<and> (\<forall>(k, v) \<in> set (filters sub).
                 (case map_of (Metadata e) k of None \<Rightarrow> [] | Some w \<Rightarrow> w) = v)"
    using assms(3) by (simp add: receives_def eventMatchesSubscriber_iff index_def)
  then show ?thesis
    using broadcastEvent_own_stream [OF assms(2) assms(1) assms(4), of e] by simp
qed

theorem broadcast_filter_witness:
  "(''subscriber_1'', example_subscriber [''message.sent''] [''channel:1''] [(''room'', ''a'')] 0)
      \<in> set (subscribers ((example_server [])\<lparr>subscribers :=
                 [(''subscriber_1'',
                   example_subscriber [''message.sent''] [''channel:1''] [(''room'', ''a'')] 0)]\<rparr>))
   \<and> sent (streams
          (broadcastEvent
             ((example_event ''e1'' ''message.sent'' ''channel:1'')\<lparr>Metadata := [(''room'', ''a'')]\<rparr>)
             ((example_server [])\<lparr>subscribers :=
                 [(''subscriber_1'',
                   example_subscriber [''message.sent''] [''channel:1''] [(''room'', ''a'')] 0)]\<rparr>)) 0)
     = [(example_event ''e1'' ''message.sent'' ''channel:1'')\<lparr>Metadata := [(''room'', ''a'')]\<rparr>]
   \<and> sent (streams
          (broadcastEvent
             (example_event ''e2'' ''channel.created'' ''channel:1'')
             ((example_server [])\<lparr>subscribers :=
                 [(''subscriber_1'',
                   example_subscriber [''message.sent''] [''channel:1''] [(''room'', ''a'')] 0)]\<rparr>)) 0)
     = []"
  using broadcast_filter
    [of "''subscriber_1''"
        "example_subscriber [''message.sent''] [''channel:1''] [(''room'', ''a'')] 0"
        "(example_server [])\<lparr>subscribers :=
                 [(''subscriber_1'',
                   example_subscriber [''message.sent''] [''channel:1''] [(''room'', ''a'')] 0)]\<rparr>"
        "(example_event ''e1'' ''message.sent'' ''channel:1'')\<lparr>Metadata := [(''room'', ''a'')]\<rparr>"]
    broadcast_filter
    [of "''subscriber_1''"
        "example_subscriber [''message.sent''] [''channel:1''] [(''room'', ''a'')] 0"
        "(example_server [])\<lparr>subscribers :=
                 [(''subscriber_1'',
                   example_subscriber [''message.sent''] [''channel:1''] [(''room'', ''a'')] 0)]\<rparr>"
        "example_event ''e2'' ''channel.created'' ''channel:1''"]
  by (simp add: example_event_def example_subscriber_def example_server_def no_streams_def)

subsection \<open>C6: a failed delivery\<close>

lemma Publish_sequence_Inr_open:
  "Publish_sequence clk req d = Inr ev \<Longrightarrow> \<not> closed d"
  by (auto simp: Publish_sequence_def getNextSequence_closed Let_def split: option.splits)

lemma Publish_stored:
  assumes "Publish_sequence clk (Some e) (db s) = Inr ev"
    and "EventId ev \<notin> set (map db_EventID (events (db s)))"
  shows "Publish clk (Some e) s =
           (Inr \<lparr>pr_EventId = EventId ev, pr_Sequence = Sequence ev, pr_Success = True\<rparr>,
            broadcastEvent ev (s\<lparr>db := (db s)\<lparr>events := events (db s) @ [CreateEventParams ev]\<rparr>\<rparr>))"
  using assms Publish_sequence_Inr_open [OF assms(1)]
  by (simp add: Publish_def Publish_store_def CreateEvent_def)

text \<open>
  C6, as stated: the subscriber whose delivery failed is marked for removal. It is not:
  the failure is logged and that is all; the subscriber stays in the map, not done, and
  the next broadcast tries it again.
\<close>

theorem failed_delivery_counterexample:
  "fst (Publish example_clock (Some (example_event ''e1'' ''message.sent'' ''channel:1''))
          example_registry)
     = Inr \<lparr>pr_EventId = ''e1'', pr_Sequence = 1, pr_Success = True\<rparr>
   \<and> logs (snd (Publish example_clock (Some (example_event ''e1'' ''message.sent'' ''channel:1''))
                  example_registry))
     = [''Failed to send event to subscriber X: transport is closing'']
   \<and> \<not> marked_for_removal
         (snd (Publish example_clock (Some (example_event ''e1'' ''message.sent'' ''channel:1''))
                 example_registry)) ''X''"
  by (simp add: Publish_fresh with_defaults_EventId example_registry_def example_event_def
      example_server_def example_subscriber_def no_streams_def latest_sequence_def
      scope_sequences_def int64_succ_def Let_def broadcastEvent_def deliver_def Send_def
      eventMatchesSubscriber_def send_failed_def stream_closed_def marked_for_removal_def)

text \<open>
  C6, amended: when the event has been sequenced and its id is new, Publish succeeds
  whatever the streams do. The map of subscribers is left as it was, so no subscriber is
  removed or marked for removal. For each subscriber that matches, is not done and has a
  stream of its own: if the stream fails, the failure is logged and the stream is left as
  it was; if it works, the event is sent on it, once.
\<close>

theorem failed_delivery_isolated:
  assumes "Publish_sequence clk (Some e) (db s) = Inr ev"
    and "EventId ev \<notin> set (map db_EventID (events (db s)))"
    and "distinct (map (stream \<circ> snd) (subscribers s))"
    and "Publish clk (Some e) s = (r, s')"
  shows "r = Inr \<lparr>pr_EventId = EventId ev, pr_Sequence = Sequence ev, pr_Success = True\<rparr>
       \<and> subscribers s' = subscribers s
       \<and> (\<forall>i. marked_for_removal s' i = marked_for_removal s i)
       \<and> (\<forall>(i, sub) \<in> set (subscribers s).
            eventMatchesSubscriber ev sub \<and> \<not> is_done sub \<longrightarrow>
              (if broken (streams s (stream sub))
               then send_failed i stream_closed \<in> set (logs s')
                    \<and> streams s' (stream sub) = streams s (stream sub)
               else sent (streams s' (stream sub)) = sent (streams s (stream sub)) @ [ev]))"
proof -
  let ?s1 = "s\<lparr>db := (db s)\<lparr>events := events (db s) @ [CreateEventParams ev]\<rparr>\<rparr>"
  have p: "Publish clk (Some e) s =
        (Inr \<lparr>pr_EventId = EventId ev, pr_Sequence = Sequence ev, pr_Success = True\<rparr>,
         broadcastEvent ev ?s1)"
    by (rule Publish_stored [OF assms(1) assms(2)])
  with assms(4) have r: "r = Inr \<lparr>pr_EventId = EventId ev, pr_Sequence = Sequence ev, pr_Success = True\<rparr>"
    and s': "s' = broadcastEvent ev ?s1" by simp_all
  have subs: "subscribers s' = subscribers s" by (simp add: s')
  have marks: "\<forall>i. marked_for_removal s' i = marked_for_removal s i"
    by (simp add: marked_for_removal_def subs)
  have each: "\<forall>(i, sub) \<in> set (subscribers s).
            eventMatchesSubscriber ev sub \<and> \<not> is_done sub \<longrightarrow>
              (if broken (streams s (stream sub))
               then send_failed i stream_closed \<in> set (logs s')
                    \<and> streams s' (stream sub) = streams s (stream sub)
               else sent (streams s' (stream sub)) = sent (streams s (stream sub)) @ [ev])"
  proof (clarify)
    fix i sub
    assume mem: "(i, sub) \<in> set (subscribers s)"
      and m: "eventMatchesSubscriber ev sub" and nd: "\<not> is_done sub"
    have rc: "receives ev sub" using m nd by (simp add: receives_def)
    show "if broken (streams s (stream sub))
          then send_failed i stream_closed \<in> set (logs s')
               \<and> streams s' (stream sub) = streams s (stream sub)
          else sent (streams s' (stream sub)) = sent (streams s (stream sub)) @ [ev]"
    proof (cases "broken (streams s (stream sub))")
      case True
      have "send_failed i stream_closed \<in> set (logs s')"
        using mem rc True
        by (force simp: s' broadcastEvent_def broadcast_loop_logs)
      moreover have "sent (streams s' (stream sub)) = sent (streams s (stream sub))"
        using True by (simp add: s' broadcastEvent_def broadcast_loop_sent)
      moreover have "broken (streams s' (stream sub)) = broken (streams s (stream sub))"
        by (simp add: s' broadcastEvent_def)
      ultimately show ?thesis using True by simp
    next
      case False
      have "sent (streams (broadcastEvent ev ?s1) (stream sub)) =
              sent (streams ?s1 (stream sub)) @ (if receives ev sub then [ev] else [])"
        by (rule broadcastEvent_own_stream [of ?s1 i sub ev]) (use assms(3) mem False in simp_all)
      then show ?thesis using False rc by (simp add: s')
    qed
  qed
  show ?thesis using r subs marks each by blast
qed
theorem failed_delivery_isolated_witness:
  "Publish_sequence example_clock (Some (example_event ''e1'' ''message.sent'' ''channel:1''))
       (db example_registry)
     = Inr ((example_event ''e1'' ''message.sent'' ''channel:1'')\<lparr>Sequence := 1\<rparr>)
   \<and> fst (Publish example_clock (Some (example_event ''e1'' ''message.sent'' ''channel:1''))
            example_registry)
     = Inr \<lparr>pr_EventId = ''e1'', pr_Sequence = 1, pr_Success = True\<rparr>
   \<and> send_failed ''X'' stream_closed
       \<in> set (logs (snd (Publish example_clock
                           (Some (example_event ''e1'' ''message.sent'' ''channel:1''))
                           example_registry)))
   \<and> sent (streams (snd (Publish example_clock
                           (Some (example_event ''e1'' ''message.sent'' ''channel:1''))
                           example_registry)) 1)
     = [(example_event ''e1'' ''message.sent'' ''channel:1'')\<lparr>Sequence := 1\<rparr>]"
proof -
  have seq: "Publish_sequence example_clock
               (Some (example_event ''e1'' ''message.sent'' ''channel:1'')) (db example_registry)
             = Inr ((example_event ''e1'' ''message.sent'' ''channel:1'')\<lparr>Sequence := 1\<rparr>)"
    by (simp add: Publish_sequence_open example_registry_def example_server_def
        latest_sequence_def scope_sequences_def int64_succ_def with_defaults_def example_event_def)
  have new: "EventId ((example_event ''e1'' ''message.sent'' ''channel:1'')\<lparr>Sequence := 1\<rparr>)
               \<notin> set (map db_EventID (events (db example_registry)))"
    by (simp add: example_registry_def example_server_def)
  have own: "distinct (map (stream \<circ> snd) (subscribers example_registry))"
    by (simp add: example_registry_def example_subscriber_def)
  have pair: "Publish example_clock (Some (example_event ''e1'' ''message.sent'' ''channel:1''))
                example_registry
              = (fst (Publish example_clock (Some (example_event ''e1'' ''message.sent'' ''channel:1''))
                        example_registry),
                 snd (Publish example_clock (Some (example_event ''e1'' ''message.sent'' ''channel:1''))
                        example_registry))"
    by simp
  show ?thesis
    using failed_delivery_isolated [OF seq new own pair] seq
    by (simp add: example_registry_def example_subscriber_def example_server_def no_streams_def
        eventMatchesSubscriber_def example_event_def)
qed

subsection \<open>The range query\<close>

text \<open>
  There is one placeholder more than there are arguments, whatever the list of types:
  the arguments move up by one place from the second occurrence of the slice on, and
  nothing is left for the LIMIT.
\<close>

lemma zip_placeholders:
  "zip (placeholders (length (gp_EventTypes p))) (arguments p) =
     (ScopeArg, SqlText (gp_Scope p))
     # zip (map TypeArg [0..<length (gp_EventTypes p)]) (map SqlText (gp_EventTypes p))
     @ [(SliceArg, SqlInteger (gp_Sequence p)), (LowerArg, SqlInteger (gp_Sequence_2 p)),
        (UpperArg, SqlInteger (gp_Limit p))]"
  by (simp add: placeholders_def arguments_def)

lemma map_of_zip_types:
  "map_of (zip (map TypeArg js) vs) SliceArg = None"
  "map_of (zip (map TypeArg js) vs) LowerArg = None"
  "map_of (zip (map TypeArg js) vs) UpperArg = None"
  "map_of (zip (map TypeArg js) vs) LimitArg = None"
  by (auto simp: map_of_eq_None_iff dest!: set_zip_leftD)

lemma bound_shifted:
  "bound p SliceArg = SqlInteger (gp_Sequence p)"
  "bound p LowerArg = SqlInteger (gp_Sequence_2 p)"
  "bound p UpperArg = SqlInteger (gp_Limit p)"
  "bound p LimitArg = SqlNull"
  by (simp_all add: bound_def zip_placeholders map_of_append map_add_def map_of_zip_types)

lemma db_GetEvents_open: "\<not> closed d \<Longrightarrow> db_GetEvents d p = Inl datatype_mismatch"
  by (simp add: db_GetEvents_def bound_shifted)

subsection \<open>GetEvents\<close>

lemma toSeq_of_open:
  "\<not> closed d \<Longrightarrow>
   toSeq_of d req =
     Inr (if ge_ToSequence req \<le> 0 then latest_sequence d (ge_Scope req) else ge_ToSequence req)"
  by (simp add: toSeq_of_def GetLatestSequence_open)

lemma GetEvents_open:
  "ge_Scope req \<noteq> [] \<Longrightarrow> \<not> closed d \<Longrightarrow>
   GetEvents d req = Inl (Status Internal (''failed to get events: '' @ datatype_mismatch))"
  by (simp add: GetEvents_def toSeq_of_open db_GetEvents_open)
subsection \<open>C7: what GetEvents returns\<close>

text \<open>
  C7 at one call. The store holds one event of scope \<open>channel:1\<close> with sequence 1; the
  call asks for that scope, the sequences 1 to 1 and at most 10 events, once with no
  type listed and once with the event's type listed. C7 says the event is returned. The
  call returns no events: the query fails on its unbound LIMIT and GetEvents answers
  with a status of code Internal. So does every call with a scope on a working database
  (\<open>GetEvents_open\<close>).
\<close>

theorem GetEvents_query_fails:
  "GetEvents \<lparr>events = [example_row ''a'' ''message.sent'' ''channel:1'' 1], closed = False\<rparr>
     \<lparr>ge_Scope = ''channel:1'', ge_EventTypes = [], ge_FromSequence = 1, ge_ToSequence = 1,
      ge_Limit = 10\<rparr>
     = Inl (Status Internal ''failed to get events: datatype mismatch'')
   \<and> GetEvents \<lparr>events = [example_row ''a'' ''message.sent'' ''channel:1'' 1], closed = False\<rparr>
     \<lparr>ge_Scope = ''channel:1'', ge_EventTypes = [''message.sent''], ge_FromSequence = 1,
      ge_ToSequence = 1, ge_Limit = 10\<rparr>
     = Inl (Status Internal ''failed to get events: datatype mismatch'')"
  by (simp add: GetEvents_open datatype_mismatch_def)

subsection \<open>Replay\<close>

lemma Subscribe_register_frame [simp]:
  "db (Subscribe_register t req h s) = db s"
  "streams (Subscribe_register t req h s) = streams s"
  by (simp_all add: Subscribe_register_def)

lemma Subscribe_start_no_replay:
  assumes "sr_FromSequence req = 0 \<or> sr_Scopes req = []"
  shows "Subscribe_start t req h s = (None, Subscribe_register t req h s)"
  using assms by (auto simp: Subscribe_start_def sendHistoricalEvents_def Let_def)

text \<open>
  A replay that is asked for stops at its first scope: with a name, the query fails;
  without one, GetEvents refuses the scope. Nothing has been sent by then, and the
  deferred cleanup takes the subscriber out of the map.
\<close>

lemma replay_scopes_fails:
  assumes "\<not> closed (db s)"
  shows "replay_scopes req h (sc # scs) s =
           (Some (StatusError
                    (if sc = [] then Status InvalidArgument ''scope is required''
                     else Status Internal (''failed to get events: '' @ datatype_mismatch))), s)"
proof (cases "sc = []")
  case True
  then show ?thesis by (simp add: GetEvents_def history_request_def)
next
  case False
  then have "GetEvents (db s) (history_request req sc) =
               Inl (Status Internal (''failed to get events: '' @ datatype_mismatch))"
    using assms by (simp add: GetEvents_open history_request_def)
  then show ?thesis using False by simp
qed

lemma Subscribe_start_fails:
  assumes "\<not> closed (db s)" and "sr_FromSequence req \<noteq> 0" and "sr_Scopes req = sc # scs"
  shows "Subscribe_start t req h s =
           (Some (StatusError
                    (if sc = [] then Status InvalidArgument ''scope is required''
                     else Status Internal (''failed to get events: '' @ datatype_mismatch))),
            Subscribe_cleanup t (Subscribe_register t req h s))"
proof -
  have "replay_scopes req h (sc # scs) (Subscribe_register t req h s) =
          (Some (StatusError
                   (if sc = [] then Status InvalidArgument ''scope is required''
                    else Status Internal (''failed to get events: '' @ datatype_mismatch))),
           Subscribe_register t req h s)"
    by (rule replay_scopes_fails) (simp add: assms(1))
  then show ?thesis
    using assms(2) assms(3)
    by (simp add: Subscribe_start_def sendHistoricalEvents_def Let_def
        del: replay_scopes.simps)
qed

subsection \<open>C8: the replay of Subscribe\<close>

text \<open>
  C8 at one call. The store holds one event of scope \<open>channel:1\<close> with sequence 1, and
  Subscribe is called for that scope with \<open>from_sequence\<close> 1 and no filter. C8 says the
  event is fetched and delivered. Nothing is delivered: the fetch fails, Subscribe
  returns the status of code Internal, and its subscriber is out of the map again.
\<close>

theorem Subscribe_replay_fails:
  "fst (Subscribe_start 1
          \<lparr>sr_EventTypes = [], sr_Scopes = [''channel:1''], sr_Filters = [], sr_FromSequence = 1\<rparr>
          0 (example_server [example_row ''a'' ''message.sent'' ''channel:1'' 1]))
     = Some (StatusError (Status Internal ''failed to get events: datatype mismatch''))
   \<and> sent (streams (snd (Subscribe_start 1
          \<lparr>sr_EventTypes = [], sr_Scopes = [''channel:1''], sr_Filters = [], sr_FromSequence = 1\<rparr>
          0 (example_server [example_row ''a'' ''message.sent'' ''channel:1'' 1]))) 0)
     = []
   \<and> subscribers (snd (Subscribe_start 1
          \<lparr>sr_EventTypes = [], sr_Scopes = [''channel:1''], sr_Filters = [], sr_FromSequence = 1\<rparr>
          0 (example_server [example_row ''a'' ''message.sent'' ''channel:1'' 1])))
     = []"
proof -
  have "Subscribe_start 1
          \<lparr>sr_EventTypes = [], sr_Scopes = [''channel:1''], sr_Filters = [], sr_FromSequence = 1\<rparr>
          0 (example_server [example_row ''a'' ''message.sent'' ''channel:1'' 1])
        = (Some (StatusError (Status Internal (''failed to get events: '' @ datatype_mismatch))),
           Subscribe_cleanup 1 (Subscribe_register 1
             \<lparr>sr_EventTypes = [], sr_Scopes = [''channel:1''], sr_Filters = [], sr_FromSequence = 1\<rparr>
             0 (example_server [example_row ''a'' ''message.sent'' ''channel:1'' 1])))"
    by (subst Subscribe_start_fails [where sc = "''channel:1''" and scs = "[]"])
       (simp_all add: example_server_def)
  then show ?thesis
    by (simp add: datatype_mismatch_def Subscribe_cleanup_def Subscribe_register_def
        example_server_def no_streams_def)
qed

subsection \<open>C9: from replay to live delivery\<close>

text \<open>
  C9 at one run. The store holds two events of scope \<open>channel:1\<close> with the sequences 1
  and 2; Subscribe is called for that scope with \<open>from_sequence\<close> 1, and afterwards a
  third event of the scope is published. C9 says the subscriber receives the sequences
  1, 2 and then 3, once each. It receives nothing: the replay fails, Subscribe returns
  and takes its subscriber out of the map, and the publish, which succeeds with sequence
  3, finds no one to send to.
\<close>

theorem Subscribe_handoff_fails:
  "fst (Subscribe_start 1
          \<lparr>sr_EventTypes = [], sr_Scopes = [''channel:1''], sr_Filters = [], sr_FromSequence = 1\<rparr>
          0 (example_server [example_row ''a'' ''message.sent'' ''channel:1'' 1,
                             example_row ''b'' ''message.sent'' ''channel:1'' 2]))
     = Some (StatusError (Status Internal ''failed to get events: datatype mismatch''))
   \<and> fst (Publish example_clock (Some (example_event ''c'' ''message.sent'' ''channel:1''))
           (snd (Subscribe_start 1
                   \<lparr>sr_EventTypes = [], sr_Scopes = [''channel:1''], sr_Filters = [],
                    sr_FromSequence = 1\<rparr>
                   0 (example_server [example_row ''a'' ''message.sent'' ''channel:1'' 1,
                                      example_row ''b'' ''message.sent'' ''channel:1'' 2]))))
     = Inr \<lparr>pr_EventId = ''c'', pr_Sequence = 3, pr_Success = True\<rparr>
   \<and> sent (streams
           (snd (Publish example_clock (Some (example_event ''c'' ''message.sent'' ''channel:1''))
                   (snd (Subscribe_start 1
                           \<lparr>sr_EventTypes = [], sr_Scopes = [''channel:1''], sr_Filters = [],
                            sr_FromSequence = 1\<rparr>
                           0 (example_server [example_row ''a'' ''message.sent'' ''channel:1'' 1,
                                              example_row ''b'' ''message.sent'' ''channel:1'' 2])))))
           0)
     = []"
proof -
  have st: "Subscribe_start 1
          \<lparr>sr_EventTypes = [], sr_Scopes = [''channel:1''], sr_Filters = [], sr_FromSequence = 1\<rparr>
          0 (example_server [example_row ''a'' ''message.sent'' ''channel:1'' 1,
                             example_row ''b'' ''message.sent'' ''channel:1'' 2])
        = (Some (StatusError (Status Internal (''failed to get events: '' @ datatype_mismatch))),
           (example_server [example_row ''a'' ''message.sent'' ''channel:1'' 1,
                            example_row ''b'' ''message.sent'' ''channel:1'' 2])
             \<lparr>logs := [''Client subscribed: '' @ subscriberID 1]\<rparr>)"
    by (subst Subscribe_start_fails [where sc = "''channel:1''" and scs = "[]"])
       (simp_all add: example_server_def Subscribe_cleanup_def Subscribe_register_def)
  show ?thesis
    unfolding st
    by (simp add: datatype_mismatch_def Publish_fresh with_defaults_EventId example_event_def
        example_server_def example_row_def latest_sequence_def scope_sequences_def
        int64_succ_def Let_def broadcastEvent_def no_streams_def)
qed

subsection \<open>C1: concurrent publishes to one scope\<close>

text \<open>A call that runs its two steps with nothing in between is \<open>Publish\<close>.\<close>

lemma run_alone:
  "run [0, 0] [Waiting clk req] s = ([Answered (fst (Publish clk req s))], snd (Publish clk req s))"
  by (simp add: Publish_def split: sum.splits prod.splits)

text \<open>
  C1 on two calls for one scope, starting from an empty store. Run one after the other,
  they are answered with the sequences 1 and 2. Run so that both read the latest sequence
  before either inserts, both are answered with sequence 1 and both rows are stored with
  it: a duplicate, and the sequence 2 is not assigned.
\<close>

theorem concurrent_publish_same_sequence:
  "fst (run [0, 0, 1, 1]
          [Waiting example_clock (Some (example_event ''a'' ''message.sent'' ''channel:1'')),
           Waiting example_clock (Some (example_event ''b'' ''message.sent'' ''channel:1''))]
          (example_server []))
     = [Answered (Inr \<lparr>pr_EventId = ''a'', pr_Sequence = 1, pr_Success = True\<rparr>),
        Answered (Inr \<lparr>pr_EventId = ''b'', pr_Sequence = 2, pr_Success = True\<rparr>)]
   \<and> fst (run [0, 1, 0, 1]
          [Waiting example_clock (Some (example_event ''a'' ''message.sent'' ''channel:1'')),
           Waiting example_clock (Some (example_event ''b'' ''message.sent'' ''channel:1''))]
          (example_server []))
     = [Answered (Inr \<lparr>pr_EventId = ''a'', pr_Sequence = 1, pr_Success = True\<rparr>),
        Answered (Inr \<lparr>pr_EventId = ''b'', pr_Sequence = 1, pr_Success = True\<rparr>)]
   \<and> scope_sequences
         (db (snd (run [0, 1, 0, 1]
          [Waiting example_clock (Some (example_event ''a'' ''message.sent'' ''channel:1'')),
           Waiting example_clock (Some (example_event ''b'' ''message.sent'' ''channel:1''))]
          (example_server [])))) ''channel:1''
     = [1, 1]"
  by (simp add: Publish_sequence_def Publish_store_def getNextSequence_def
      GetLatestSequence_def scope_sequences_def coalesce_def int64_succ_def CreateEvent_def
      CreateEventParams_def AsTime_Unix_def with_defaults_def broadcastEvent_def
      example_server_def example_event_def example_clock_def no_streams_def Let_def)

end
